theory Spec2Isabelle
  imports Main
begin

section \<open>The dashboard screen: data\<close>

text \<open>
  The component \<open>DashboardContent\<close> (admin-panel/src/pages/DashboardContent.tsx) selects a
  device or a hierarchy node, fetches chart data for it and polls every five seconds.
  The model below follows the component as it is written: its props, its state hooks, its
  two effects, its two asynchronous loaders and the interval callback.

  The values the component passes on without looking at them (measurements, metadata, the
  hierarchy payload) have the type variable \<open>'v\<close>.
\<close>

text \<open>An identifier of type \<open>number | string\<close>.\<close>

datatype jsid = IdNum int | IdStr string

text \<open>
  A value of type \<open>number\<close> handed to an endpoint: a number that was one already, or the
  result of the builtin \<open>parseInt\<close> or \<open>Number\<close> on a string. The builtins are not code of
  the component, so their result stays an application of the builtin to its argument.
\<close>

datatype jsnumber = Lit int | ParseInt string | NumberOf string

text \<open>
  A prop or context value that may be absent: \<open>undefined\<close>, \<open>null\<close>, or a value.
\<close>

datatype 'a nullable = Undefined | Null | Val 'a

text \<open>
  The prop \<open>selectedDevice\<close>, an object: \<open>device_ref\<close> is its identity (two objects with the
  same fields are still two objects), \<open>deviceId\<close> may be missing, \<open>id\<close> is the fallback.
\<close>

record Device =
  device_ref :: nat
  device_deviceId :: "jsid option"
  device_id :: jsid

text \<open>
  The prop \<open>selectedHierarchy\<close>, an object with its identity, of which the fetch logic
  reads \<open>id\<close> only.
\<close>

record Hierarchy =
  hierarchy_ref :: nat
  hierarchy_id :: jsid

text \<open>One measurement point, in the response and in the snapshot alike.\<close>

record 'v point =
  timestamp :: 'v
  gfr :: 'v
  gor :: 'v
  gvf :: 'v
  ofr :: 'v
  wfr :: 'v
  wlr :: 'v
  pressure :: 'v
  temperature :: 'v

text \<open>
  The payload of the device endpoint, \<open>response.data\<close>, taken to be of its declared type.
  The fields the component reads with \<open>?.\<close> or \<open>||\<close> are optional; field names carry the
  prefix \<open>r_\<close>.
\<close>

record 'v enhancedDevice =
  r_deviceId :: "jsid option"
  r_deviceSerial :: 'v
  r_deviceName :: 'v
  r_deviceLogo :: 'v
  r_metadata :: 'v
  r_createdAt :: "string option"
  r_wellName :: 'v
  r_companyName :: "string option"

record 'v enhancedData =
  r_device :: "'v enhancedDevice"
  r_chartData :: "'v point list"
  r_latestData :: 'v
  r_timeRange :: 'v
  r_totalDataPoints :: 'v

text \<open>The device snapshot, \<open>DeviceChartData\<close>; field names carry the prefix \<open>d_\<close>.\<close>

record 'v deviceInfo =
  d_id :: string
  d_serial_number :: 'v
  d_type :: 'v
  d_logo :: 'v
  d_metadata :: 'v
  d_created_at :: string
  d_location :: 'v
  d_company :: string

record 'v DeviceChartData =
  d_device :: "'v deviceInfo"
  d_chartData :: "'v point list"
  d_latestData :: 'v
  d_timeRange :: 'v
  d_totalDataPoints :: 'v

text \<open>What an endpoint answers: \<open>{success, data}\<close>, or the promise rejects with an error.\<close>

record 'd response =
  success :: bool
  data :: "'d option"

datatype 'd outcome = Rejected string | Resolved "'d response"

text \<open>A call of the API client: the numeric id, the time range and the token.\<close>

datatype call =
  GetDeviceChartDataEnhanced jsnumber string string
| GetHierarchyChartDataEnhanced jsnumber string string

text \<open>
  A fetch in flight: the part of a loader after its \<open>await\<close>. The device loader's
  continuation still reads its parameter \<open>deviceId\<close>.
\<close>

datatype inflight = DeviceFetch jsid | HierarchyFetch

text \<open>The handle \<open>setInterval\<close> returns (\<open>NodeJS.Timeout\<close>, an object: always truthy).\<close>

datatype timeout = Timeout nat

text \<open>
  What the interval callback closes over: the props and the token of the render that ran
  the timer effect, and, through the loaders of that render, its time range.
\<close>

record closure =
  c_selectedDevice :: "Device nullable"
  c_selectedHierarchy :: "Hierarchy nullable"
  c_token :: "string nullable"
  c_timeRange :: string

text \<open>
  The component: props and token as of the last render, the five state hooks, the ref,
  and the environment it acts on (the live interval timers, the fetches in flight, the
  calls made to the API client and the lines written by \<open>console.error\<close>).
\<close>

record 'v dashboard =
  selectedDevice :: "Device nullable"
  selectedHierarchy :: "Hierarchy nullable"
  token :: "string nullable"
  chartData :: "'v DeviceChartData option"
  hierarchyChartData :: "'v option"
  timeRange :: string
  isLoading :: bool
  lastRefresh :: nat
  refreshIntervalRef :: "timeout option"
  mounted :: bool
  intervals :: "(timeout \<times> closure) list"
  nextInterval :: nat
  pending :: "inflight list"
  calls :: "call list"
  console :: "(string \<times> string) list"

section \<open>Builtins\<close>

text \<open>Truthiness of an object that may be absent, and the object itself.\<close>

fun present :: "'a nullable \<Rightarrow> bool" where
  "present (Val x) = True"
| "present Undefined = False"
| "present Null = False"

fun the_val :: "'a nullable \<Rightarrow> 'a" where
  "the_val (Val x) = x"

text \<open>\<open>!token\<close>: the token is falsy when it is absent or the empty string.\<close>

fun falsy_token :: "string nullable \<Rightarrow> bool" where
  "falsy_token (Val s) = (s = [])"
| "falsy_token Undefined = True"
| "falsy_token Null = True"

text \<open>
  \<open>Object.is\<close>, by which React compares the dependencies of an effect with those of
  the previous render: two objects are the same when they are one object, whatever their
  fields; \<open>null\<close> and \<open>undefined\<close> are not the same. (On strings it is equality.)
\<close>

fun Object_is :: "('a \<Rightarrow> nat) \<Rightarrow> 'a nullable \<Rightarrow> 'a nullable \<Rightarrow> bool" where
  "Object_is ref (Val a) (Val b) = (ref a = ref b)"
| "Object_is ref Undefined Undefined = True"
| "Object_is ref Null Null = True"
| "Object_is ref a b = False"

text \<open>Truthiness of a \<open>number | string | undefined\<close>.\<close>

fun truthy_id :: "jsid option \<Rightarrow> bool" where
  "truthy_id None = False"
| "truthy_id (Some (IdNum n)) = (n \<noteq> 0)"
| "truthy_id (Some (IdStr s)) = (s \<noteq> [])"

text \<open>\<open>toString()\<close> on a number (decimal) or a string (itself).\<close>

fun nat_toString :: "nat \<Rightarrow> string" where
  "nat_toString n =
     (if n < 10 then [char_of (48 + n)]
      else nat_toString (n div 10) @ [char_of (48 + n mod 10)])"

declare nat_toString.simps [simp del]

definition int_toString :: "int \<Rightarrow> string" where
  "int_toString i = (if i < 0 then CHR ''-'' # nat_toString (nat (- i)) else nat_toString (nat i))"

fun toString :: "jsid \<Rightarrow> string" where
  "toString (IdNum n) = int_toString n"
| "toString (IdStr s) = s"

text \<open>\<open>a || b\<close> on optional strings.\<close>

definition or_string :: "string option \<Rightarrow> string \<Rightarrow> string" where
  "or_string a b = (case a of None \<Rightarrow> b | Some s \<Rightarrow> if s = [] then b else s)"

section \<open>The loaders\<close>

text \<open>
  \<open>loadDeviceChartData\<close> up to its \<open>await\<close>. The token and the time range are those of
  the render whose closure calls the loader.
\<close>

definition deviceIdNumber :: "jsid \<Rightarrow> jsnumber" where
  "deviceIdNumber deviceId = (case deviceId of IdStr s \<Rightarrow> ParseInt s | IdNum n \<Rightarrow> Lit n)"

definition loadDeviceChartData ::
  "string nullable \<Rightarrow> string \<Rightarrow> jsid \<Rightarrow> 'v dashboard \<Rightarrow> 'v dashboard" where
  "loadDeviceChartData tok tr deviceId st =
     (if falsy_token tok then st
      else st\<lparr>isLoading := True,
              calls := calls st @ [GetDeviceChartDataEnhanced (deviceIdNumber deviceId) tr (the_val tok)],
              pending := pending st @ [DeviceFetch deviceId]\<rparr>)"

text \<open>\<open>Number(hierarchyId)\<close>.\<close>

definition Number :: "jsid \<Rightarrow> jsnumber" where
  "Number x = (case x of IdStr s \<Rightarrow> NumberOf s | IdNum n \<Rightarrow> Lit n)"

definition loadHierarchyChartData ::
  "string nullable \<Rightarrow> string \<Rightarrow> jsid \<Rightarrow> 'v dashboard \<Rightarrow> 'v dashboard" where
  "loadHierarchyChartData tok tr hierarchyId st =
     (if falsy_token tok then st
      else st\<lparr>isLoading := True,
              calls := calls st @ [GetHierarchyChartDataEnhanced (Number hierarchyId) tr (the_val tok)],
              pending := pending st @ [HierarchyFetch]\<rparr>)"

text \<open>
  \<open>transformedData\<close>: the snapshot built from a response. \<open>now\<close> is what
  \<open>new Date().toISOString()\<close> gives when the continuation runs.
\<close>

definition copyPoint :: "'v point \<Rightarrow> 'v point" where
  "copyPoint p =
     \<lparr>timestamp = timestamp p, gfr = gfr p, gor = gor p, gvf = gvf p, ofr = ofr p,
      wfr = wfr p, wlr = wlr p, pressure = pressure p, temperature = temperature p\<rparr>"

definition transformedData :: "jsid \<Rightarrow> string \<Rightarrow> 'v enhancedData \<Rightarrow> 'v DeviceChartData" where
  "transformedData deviceId now d =
     \<lparr>d_device =
        \<lparr>d_id = or_string (map_option toString (r_deviceId (r_device d))) (toString deviceId),
         d_serial_number = r_deviceSerial (r_device d),
         d_type = r_deviceName (r_device d),
         d_logo = r_deviceLogo (r_device d),
         d_metadata = r_metadata (r_device d),
         d_created_at = or_string (r_createdAt (r_device d)) now,
         d_location = r_wellName (r_device d),
         d_company = or_string (r_companyName (r_device d)) ''Unknown''\<rparr>,
      d_chartData = map copyPoint (r_chartData d),
      d_latestData = r_latestData d,
      d_timeRange = r_timeRange d,
      d_totalDataPoints = r_totalDataPoints d\<rparr>"

text \<open>
  The rest of \<open>loadDeviceChartData\<close>, run when the promise settles: the success check and
  \<open>setChartData\<close>, or the \<open>catch\<close> with its \<open>console.error\<close>; then \<open>finally\<close>.
\<close>

definition deviceSettled ::
  "jsid \<Rightarrow> string \<Rightarrow> 'v enhancedData outcome \<Rightarrow> 'v dashboard \<Rightarrow> 'v dashboard" where
  "deviceSettled deviceId now out st =
     (let st1 =
        (case out of
           Resolved r \<Rightarrow>
             (case (success r, data r) of
                (True, Some d) \<Rightarrow> st\<lparr>chartData := Some (transformedData deviceId now d)\<rparr>
              | _ \<Rightarrow> st)
         | Rejected e \<Rightarrow>
             st\<lparr>console := console st @ [(''Failed to load device chart data:'', e)]\<rparr>)
      in st1\<lparr>isLoading := False\<rparr>)"

definition hierarchySettled :: "'v outcome \<Rightarrow> 'v dashboard \<Rightarrow> 'v dashboard" where
  "hierarchySettled out st =
     (let st1 =
        (case out of
           Resolved r \<Rightarrow>
             (case (success r, data r) of
                (True, Some d) \<Rightarrow> st\<lparr>hierarchyChartData := Some d\<rparr>
              | _ \<Rightarrow> st)
         | Rejected e \<Rightarrow>
             st\<lparr>console := console st @ [(''Failed to load hierarchy chart data:'', e)]\<rparr>)
      in st1\<lparr>isLoading := False\<rparr>)"

section \<open>The two effects\<close>

text \<open>\<open>selectedDevice.deviceId || selectedDevice.id\<close>.\<close>

definition deviceIdOf :: "Device \<Rightarrow> jsid" where
  "deviceIdOf d = (if truthy_id (device_deviceId d) then the (device_deviceId d) else device_id d)"

text \<open>
  The first effect, with dependencies \<open>[selectedDevice, selectedHierarchy, timeRange, token]\<close>.
  Its arguments are the values of the render that runs it.
\<close>

definition selectionEffect ::
  "Device nullable \<Rightarrow> Hierarchy nullable \<Rightarrow> string \<Rightarrow> string nullable \<Rightarrow> 'v dashboard \<Rightarrow> 'v dashboard" where
  "selectionEffect dev hier tr tok st =
     (if present dev \<and> \<not> present hier then
        (loadDeviceChartData tok tr (deviceIdOf (the_val dev)) st)\<lparr>hierarchyChartData := None\<rparr>
      else if present hier \<and> \<not> present dev then
        (loadHierarchyChartData tok tr (hierarchy_id (the_val hier)) st)\<lparr>chartData := None\<rparr>
      else st)"

text \<open>\<open>clearInterval\<close> and \<open>setInterval\<close> on the live timers.\<close>

definition clearInterval :: "timeout \<Rightarrow> 'v dashboard \<Rightarrow> 'v dashboard" where
  "clearInterval t st = st\<lparr>intervals := filter (\<lambda>(i, c). i \<noteq> t) (intervals st)\<rparr>"

definition clearCurrent :: "'v dashboard \<Rightarrow> 'v dashboard" where
  "clearCurrent st = (case refreshIntervalRef st of Some t \<Rightarrow> clearInterval t st | None \<Rightarrow> st)"

text \<open>
  The second effect, with dependencies \<open>[selectedDevice, selectedHierarchy, token]\<close>:
  \<open>startAutoRefresh\<close> is its body, \<open>clearCurrent\<close> (above) the cleanup it returns.
\<close>

definition startAutoRefresh :: "closure \<Rightarrow> 'v dashboard \<Rightarrow> 'v dashboard" where
  "startAutoRefresh clo st =
     (let st1 = clearCurrent st;
          t = Timeout (nextInterval st1)
      in st1\<lparr>intervals := intervals st1 @ [(t, clo)],
             nextInterval := Suc (nextInterval st1),
             refreshIntervalRef := Some t\<rparr>)"

text \<open>The callback handed to \<open>setInterval\<close>; \<open>now\<close> is the value of \<open>new Date()\<close>.\<close>

definition intervalCallback :: "closure \<Rightarrow> nat \<Rightarrow> 'v dashboard \<Rightarrow> 'v dashboard" where
  "intervalCallback clo now st =
     (let st1 = st\<lparr>lastRefresh := now\<rparr>
      in if present (c_selectedDevice clo) \<and> \<not> present (c_selectedHierarchy clo) then
           loadDeviceChartData (c_token clo) (c_timeRange clo)
             (deviceIdOf (the_val (c_selectedDevice clo))) st1
         else if present (c_selectedHierarchy clo) \<and> \<not> present (c_selectedDevice clo) then
           loadHierarchyChartData (c_token clo) (c_timeRange clo)
             (hierarchy_id (the_val (c_selectedHierarchy clo))) st1
         else st1)"

section \<open>The life of the component\<close>

text \<open>
  The first render: the initial values of the hooks, then both effects.
  \<open>now\<close> is the \<open>new Date()\<close> of \<open>useState\<close>.
\<close>

definition initial ::
  "Device nullable \<Rightarrow> Hierarchy nullable \<Rightarrow> string nullable \<Rightarrow> nat \<Rightarrow> 'v dashboard" where
  "initial dev hier tok now =
     \<lparr>selectedDevice = dev, selectedHierarchy = hier, token = tok,
      chartData = None, hierarchyChartData = None, timeRange = ''day'',
      isLoading = False, lastRefresh = now, refreshIntervalRef = None,
      mounted = True, intervals = [], nextInterval = 0, pending = [], calls = [],
      console = []\<rparr>"

definition closureOf :: "'v dashboard \<Rightarrow> closure" where
  "closureOf st =
     \<lparr>c_selectedDevice = selectedDevice st, c_selectedHierarchy = selectedHierarchy st,
      c_token = token st, c_timeRange = timeRange st\<rparr>"

definition mount ::
  "Device nullable \<Rightarrow> Hierarchy nullable \<Rightarrow> string nullable \<Rightarrow> nat \<Rightarrow> 'v dashboard" where
  "mount dev hier tok now =
     (let st = initial dev hier tok now;
          st1 = selectionEffect dev hier (timeRange st) tok st
      in startAutoRefresh (closureOf st1) st1)"

text \<open>
  Are the dependencies \<open>[selectedDevice, selectedHierarchy, token]\<close> of the timer effect,
  and \<open>[selectedDevice, selectedHierarchy, timeRange, token]\<close> of the selection effect, the
  same as in the previous render? React compares each with \<open>Object.is\<close>: the two props by
  identity, the token and the time range, being strings, by their characters.
\<close>

definition timerDepsSame ::
  "Device nullable \<Rightarrow> Hierarchy nullable \<Rightarrow> string nullable \<Rightarrow> 'v dashboard \<Rightarrow> bool" where
  "timerDepsSame dev hier tok st =
     (Object_is device_ref dev (selectedDevice st) \<and>
      Object_is hierarchy_ref hier (selectedHierarchy st) \<and>
      tok = token st)"

definition fetchDepsSame ::
  "Device nullable \<Rightarrow> Hierarchy nullable \<Rightarrow> string \<Rightarrow> string nullable \<Rightarrow> 'v dashboard \<Rightarrow> bool" where
  "fetchDepsSame dev hier tr tok st =
     (Object_is device_ref dev (selectedDevice st) \<and>
      Object_is hierarchy_ref hier (selectedHierarchy st) \<and>
      tr = timeRange st \<and>
      tok = token st)"

text \<open>
  A later render with props \<open>dev\<close>, \<open>hier\<close>, token \<open>tok\<close> and time range \<open>tr\<close>: an
  effect runs when one of its dependencies is not the same as in the previous render;
  cleanups run before bodies.
\<close>

definition render ::
  "Device nullable \<Rightarrow> Hierarchy nullable \<Rightarrow> string nullable \<Rightarrow> string \<Rightarrow> 'v dashboard \<Rightarrow> 'v dashboard" where
  "render dev hier tok tr st =
     (let fetchDeps = (\<not> fetchDepsSame dev hier tr tok st);
          timerDeps = (\<not> timerDepsSame dev hier tok st);
          st1 = st\<lparr>selectedDevice := dev, selectedHierarchy := hier, token := tok,
                   timeRange := tr\<rparr>;
          st2 = (if timerDeps then clearCurrent st1 else st1);
          st3 = (if fetchDeps then selectionEffect dev hier tr tok st2 else st2)
      in if timerDeps then startAutoRefresh (closureOf st3) st3 else st3)"

text \<open>
  Props are not changed in place: an object that is the one of the previous render has
  the fields it had then.
\<close>

definition notMutated :: "('a \<Rightarrow> nat) \<Rightarrow> 'a nullable \<Rightarrow> 'a nullable \<Rightarrow> bool" where
  "notMutated ref new old = (if Object_is ref new old then new = old else True)"

text \<open>
  What can happen to a mounted component: the parent renders it with new props or the
  token changes, a time-range button is clicked, a live timer fires, a fetch in flight
  settles, the component is unmounted. A fetch may also settle after the unmount: its
  continuation runs all the same, and the state then records what it handed to the
  setters.
\<close>

datatype 'v event =
  Rerender "Device nullable" "Hierarchy nullable" "string nullable"
| SetTimeRange string
| Tick timeout nat
| DeviceSettles nat string "'v enhancedData outcome"
| HierarchySettles nat "'v outcome"
| Unmount

definition dropAt :: "nat \<Rightarrow> 'a list \<Rightarrow> 'a list" where
  "dropAt k xs = take k xs @ drop (Suc k) xs"

text \<open>
  One event; \<open>None\<close> when the event cannot happen in that state: a render or an unmount
  of a component that is not mounted, a render with a prop that was changed in place, a
  timer that is not live, a fetch that is not in flight.
\<close>

fun step :: "'v event \<Rightarrow> 'v dashboard \<Rightarrow> 'v dashboard option" where
  "step (Rerender dev hier tok) st =
     (if mounted st \<and> notMutated device_ref dev (selectedDevice st) \<and>
         notMutated hierarchy_ref hier (selectedHierarchy st)
      then Some (render dev hier tok (timeRange st) st) else None)"
| "step (SetTimeRange tr) st =
     (if mounted st
      then Some (render (selectedDevice st) (selectedHierarchy st) (token st) tr st)
      else None)"
| "step (Tick t now) st =
     (case map_of (intervals st) t of
        Some clo \<Rightarrow> Some (intervalCallback clo now st)
      | None \<Rightarrow> None)"
| "step (DeviceSettles k now out) st =
     (if k < length (pending st) then
        (case pending st ! k of
           DeviceFetch deviceId \<Rightarrow>
             Some (deviceSettled deviceId now out (st\<lparr>pending := dropAt k (pending st)\<rparr>))
         | HierarchyFetch \<Rightarrow> None)
      else None)"
| "step (HierarchySettles k out) st =
     (if k < length (pending st) then
        (case pending st ! k of
           HierarchyFetch \<Rightarrow>
             Some (hierarchySettled out (st\<lparr>pending := dropAt k (pending st)\<rparr>))
         | DeviceFetch deviceId \<Rightarrow> None)
      else None)"
| "step Unmount st =
     (if mounted st then Some ((clearCurrent st)\<lparr>mounted := False\<rparr>) else None)"

text \<open>A sequence of events, from left to right.\<close>

fun run :: "'v event list \<Rightarrow> 'v dashboard \<Rightarrow> 'v dashboard option" where
  "run [] st = Some st"
| "run (e # es) st = (case step e st of None \<Rightarrow> None | Some st' \<Rightarrow> run es st')"

section \<open>Sample inputs\<close>

definition sampleDevice :: Device where
  "sampleDevice = \<lparr>device_ref = 1, device_deviceId = Some (IdStr ''42''), device_id = IdNum 7\<rparr>"

definition sampleHierarchy :: Hierarchy where
  "sampleHierarchy = \<lparr>hierarchy_ref = 2, hierarchy_id = IdNum 3\<rparr>"

definition samplePoint :: "nat point" where
  "samplePoint =
     \<lparr>timestamp = 1, gfr = 2, gor = 3, gvf = 4, ofr = 5, wfr = 6, wlr = 7, pressure = 8,
      temperature = 9\<rparr>"

text \<open>A response payload with every optional field present, and one with none of them.\<close>

definition sampleData :: "nat enhancedData" where
  "sampleData =
     \<lparr>r_device =
        \<lparr>r_deviceId = Some (IdNum 42), r_deviceSerial = 10, r_deviceName = 11,
         r_deviceLogo = 12, r_metadata = 13, r_createdAt = Some ''2024-01-01T00:00:00.000Z'',
         r_wellName = 14, r_companyName = Some ''Acme''\<rparr>,
      r_chartData = [samplePoint], r_latestData = 15, r_timeRange = 16,
      r_totalDataPoints = 1\<rparr>"

definition bareData :: "nat enhancedData" where
  "bareData =
     \<lparr>r_device =
        \<lparr>r_deviceId = None, r_deviceSerial = 10, r_deviceName = 11,
         r_deviceLogo = 12, r_metadata = 13, r_createdAt = None,
         r_wellName = 14, r_companyName = None\<rparr>,
      r_chartData = [samplePoint], r_latestData = 15, r_timeRange = 16,
      r_totalDataPoints = 1\<rparr>"

definition ok :: "'d \<Rightarrow> 'd outcome" where
  "ok d = Resolved \<lparr>success = True, data = Some d\<rparr>"

text \<open>The component mounted with the sample device selected and a token.\<close>

definition deviceMounted :: "nat dashboard" where
  "deviceMounted = mount (Val sampleDevice) Null (Val ''tok'') 0"


section \<open>What a selection asks for\<close>

text \<open>
  The fetch a loader starts for props \<open>dev\<close>, \<open>hier\<close> and token \<open>tok\<close>, and the call it
  makes with time range \<open>tr\<close>: none with the token falsy, or with both or neither props
  set.
\<close>

definition wanted :: "Device nullable \<Rightarrow> Hierarchy nullable \<Rightarrow> string nullable \<Rightarrow> inflight list" where
  "wanted dev hier tok =
     (if falsy_token tok then []
      else if present dev \<and> \<not> present hier then [DeviceFetch (deviceIdOf (the_val dev))]
      else if present hier \<and> \<not> present dev then [HierarchyFetch]
      else [])"

definition wantedCalls ::
  "Device nullable \<Rightarrow> Hierarchy nullable \<Rightarrow> string \<Rightarrow> string nullable \<Rightarrow> call list" where
  "wantedCalls dev hier tr tok =
     (if falsy_token tok then []
      else if present dev \<and> \<not> present hier then
        [GetDeviceChartDataEnhanced (deviceIdNumber (deviceIdOf (the_val dev))) tr (the_val tok)]
      else if present hier \<and> \<not> present dev then
        [GetHierarchyChartDataEnhanced (Number (hierarchy_id (the_val hier))) tr (the_val tok)]
      else [])"

section \<open>Invariants\<close>

text \<open>The loading flag is up only while a fetch is in flight, and not before the first call.\<close>

definition loading_inv :: "'v dashboard \<Rightarrow> bool" where
  "loading_inv st =
     ((isLoading st \<longrightarrow> pending st \<noteq> []) \<and> (calls st = [] \<longrightarrow> \<not> isLoading st))"

text \<open>
  A mounted component has exactly one live timer: the one in the ref, whose callback closes
  over the current props and token. An unmounted one has none.
\<close>

fun number :: "timeout \<Rightarrow> nat" where
  "number (Timeout n) = n"

definition closes_over :: "closure \<Rightarrow> 'v dashboard \<Rightarrow> bool" where
  "closes_over c st =
     (c_selectedDevice c = selectedDevice st \<and>
      c_selectedHierarchy c = selectedHierarchy st \<and>
      c_token c = token st)"

definition timer_inv :: "'v dashboard \<Rightarrow> bool" where
  "timer_inv st =
     (if mounted st then
        (case refreshIntervalRef st of
           None \<Rightarrow> False
         | Some t \<Rightarrow>
             map fst (intervals st) = [t] \<and> number t < nextInterval st \<and>
             list_all (\<lambda>(i, c). closes_over c st) (intervals st))
      else intervals st = [])"

text \<open>Is a fetch of this kind in flight?\<close>

definition deviceInFlight :: "'v dashboard \<Rightarrow> bool" where
  "deviceInFlight st = (\<exists>x \<in> set (pending st). x \<noteq> HierarchyFetch)"

definition hierarchyInFlight :: "'v dashboard \<Rightarrow> bool" where
  "hierarchyInFlight st = (HierarchyFetch \<in> set (pending st))"

text \<open>
  At most one snapshot is there; a fetch in flight finds the other kind's snapshot empty
  and no fetch of the other kind in flight; with exactly one kind selected, the other kind
  has neither a snapshot nor a fetch in flight.
\<close>

definition snapshot_inv :: "'v dashboard \<Rightarrow> bool" where
  "snapshot_inv st =
     ((chartData st = None \<or> hierarchyChartData st = None) \<and>
      (deviceInFlight st \<longrightarrow> hierarchyChartData st = None \<and> \<not> hierarchyInFlight st) \<and>
      (hierarchyInFlight st \<longrightarrow> chartData st = None) \<and>
      (present (selectedDevice st) \<and> \<not> present (selectedHierarchy st) \<longrightarrow>
         hierarchyChartData st = None \<and> \<not> hierarchyInFlight st) \<and>
      (\<not> present (selectedDevice st) \<and> present (selectedHierarchy st) \<longrightarrow>
         chartData st = None \<and> \<not> deviceInFlight st))"

text \<open>
  An event is calm when it does not make the selection device-only while a hierarchy
  fetch is in flight, nor hierarchy-only while a device fetch is in flight.
\<close>

fun calm :: "'v event \<Rightarrow> 'v dashboard \<Rightarrow> bool" where
  "calm (Rerender dev hier tok) st =
     ((present dev \<and> \<not> present hier \<longrightarrow> \<not> hierarchyInFlight st) \<and>
      (\<not> present dev \<and> present hier \<longrightarrow> \<not> deviceInFlight st))"
| "calm e st = True"

fun calm_run :: "'v event list \<Rightarrow> 'v dashboard \<Rightarrow> bool" where
  "calm_run [] st = True"
| "calm_run (e # es) st =
     (calm e st \<and> (case step e st of None \<Rightarrow> False | Some st' \<Rightarrow> calm_run es st'))"

section \<open>How each operation changes each field\<close>

lemma loadDevice_fields [simp]:
  "selectedDevice (loadDeviceChartData tok tr i st) = selectedDevice st"
  "selectedHierarchy (loadDeviceChartData tok tr i st) = selectedHierarchy st"
  "token (loadDeviceChartData tok tr i st) = token st"
  "chartData (loadDeviceChartData tok tr i st) = chartData st"
  "hierarchyChartData (loadDeviceChartData tok tr i st) = hierarchyChartData st"
  "timeRange (loadDeviceChartData tok tr i st) = timeRange st"
  "lastRefresh (loadDeviceChartData tok tr i st) = lastRefresh st"
  "refreshIntervalRef (loadDeviceChartData tok tr i st) = refreshIntervalRef st"
  "mounted (loadDeviceChartData tok tr i st) = mounted st"
  "intervals (loadDeviceChartData tok tr i st) = intervals st"
  "nextInterval (loadDeviceChartData tok tr i st) = nextInterval st"
  "console (loadDeviceChartData tok tr i st) = console st"
  "isLoading (loadDeviceChartData tok tr i st) = (isLoading st \<or> \<not> falsy_token tok)"
  "pending (loadDeviceChartData tok tr i st) =
     pending st @ (if falsy_token tok then [] else [DeviceFetch i])"
  "calls (loadDeviceChartData tok tr i st) =
     calls st @ (if falsy_token tok then []
                 else [GetDeviceChartDataEnhanced (deviceIdNumber i) tr (the_val tok)])"
  by (simp_all add: loadDeviceChartData_def)

lemma loadHierarchy_fields [simp]:
  "selectedDevice (loadHierarchyChartData tok tr i st) = selectedDevice st"
  "selectedHierarchy (loadHierarchyChartData tok tr i st) = selectedHierarchy st"
  "token (loadHierarchyChartData tok tr i st) = token st"
  "chartData (loadHierarchyChartData tok tr i st) = chartData st"
  "hierarchyChartData (loadHierarchyChartData tok tr i st) = hierarchyChartData st"
  "timeRange (loadHierarchyChartData tok tr i st) = timeRange st"
  "lastRefresh (loadHierarchyChartData tok tr i st) = lastRefresh st"
  "refreshIntervalRef (loadHierarchyChartData tok tr i st) = refreshIntervalRef st"
  "mounted (loadHierarchyChartData tok tr i st) = mounted st"
  "intervals (loadHierarchyChartData tok tr i st) = intervals st"
  "nextInterval (loadHierarchyChartData tok tr i st) = nextInterval st"
  "console (loadHierarchyChartData tok tr i st) = console st"
  "isLoading (loadHierarchyChartData tok tr i st) = (isLoading st \<or> \<not> falsy_token tok)"
  "pending (loadHierarchyChartData tok tr i st) =
     pending st @ (if falsy_token tok then [] else [HierarchyFetch])"
  "calls (loadHierarchyChartData tok tr i st) =
     calls st @ (if falsy_token tok then []
                 else [GetHierarchyChartDataEnhanced (Number i) tr (the_val tok)])"
  by (simp_all add: loadHierarchyChartData_def)

lemma selectionEffect_fields [simp]:
  "selectedDevice (selectionEffect dev hier tr tok st) = selectedDevice st"
  "selectedHierarchy (selectionEffect dev hier tr tok st) = selectedHierarchy st"
  "token (selectionEffect dev hier tr tok st) = token st"
  "timeRange (selectionEffect dev hier tr tok st) = timeRange st"
  "lastRefresh (selectionEffect dev hier tr tok st) = lastRefresh st"
  "refreshIntervalRef (selectionEffect dev hier tr tok st) = refreshIntervalRef st"
  "mounted (selectionEffect dev hier tr tok st) = mounted st"
  "intervals (selectionEffect dev hier tr tok st) = intervals st"
  "nextInterval (selectionEffect dev hier tr tok st) = nextInterval st"
  "console (selectionEffect dev hier tr tok st) = console st"
  "chartData (selectionEffect dev hier tr tok st) =
     (if \<not> present dev \<and> present hier then None else chartData st)"
  "hierarchyChartData (selectionEffect dev hier tr tok st) =
     (if present dev \<and> \<not> present hier then None else hierarchyChartData st)"
  "isLoading (selectionEffect dev hier tr tok st) = (isLoading st \<or> wanted dev hier tok \<noteq> [])"
  "pending (selectionEffect dev hier tr tok st) = pending st @ wanted dev hier tok"
  "calls (selectionEffect dev hier tr tok st) = calls st @ wantedCalls dev hier tr tok"
  by (simp_all add: selectionEffect_def wanted_def wantedCalls_def)

lemma intervalCallback_fields [simp]:
  "selectedDevice (intervalCallback clo now st) = selectedDevice st"
  "selectedHierarchy (intervalCallback clo now st) = selectedHierarchy st"
  "token (intervalCallback clo now st) = token st"
  "timeRange (intervalCallback clo now st) = timeRange st"
  "lastRefresh (intervalCallback clo now st) = now"
  "refreshIntervalRef (intervalCallback clo now st) = refreshIntervalRef st"
  "mounted (intervalCallback clo now st) = mounted st"
  "intervals (intervalCallback clo now st) = intervals st"
  "nextInterval (intervalCallback clo now st) = nextInterval st"
  "console (intervalCallback clo now st) = console st"
  "chartData (intervalCallback clo now st) = chartData st"
  "hierarchyChartData (intervalCallback clo now st) = hierarchyChartData st"
  "isLoading (intervalCallback clo now st) =
     (isLoading st \<or> wanted (c_selectedDevice clo) (c_selectedHierarchy clo) (c_token clo) \<noteq> [])"
  "pending (intervalCallback clo now st) =
     pending st @ wanted (c_selectedDevice clo) (c_selectedHierarchy clo) (c_token clo)"
  "calls (intervalCallback clo now st) =
     calls st @ wantedCalls (c_selectedDevice clo) (c_selectedHierarchy clo) (c_timeRange clo)
                 (c_token clo)"
  by (simp_all add: intervalCallback_def wanted_def wantedCalls_def Let_def)

lemma clearCurrent_fields [simp]:
  "selectedDevice (clearCurrent st) = selectedDevice st"
  "selectedHierarchy (clearCurrent st) = selectedHierarchy st"
  "token (clearCurrent st) = token st"
  "timeRange (clearCurrent st) = timeRange st"
  "lastRefresh (clearCurrent st) = lastRefresh st"
  "refreshIntervalRef (clearCurrent st) = refreshIntervalRef st"
  "mounted (clearCurrent st) = mounted st"
  "nextInterval (clearCurrent st) = nextInterval st"
  "console (clearCurrent st) = console st"
  "chartData (clearCurrent st) = chartData st"
  "hierarchyChartData (clearCurrent st) = hierarchyChartData st"
  "isLoading (clearCurrent st) = isLoading st"
  "pending (clearCurrent st) = pending st"
  "calls (clearCurrent st) = calls st"
  "intervals (clearCurrent st) =
     (case refreshIntervalRef st of
        Some t \<Rightarrow> filter (\<lambda>(i, c). i \<noteq> t) (intervals st)
      | None \<Rightarrow> intervals st)"
  by (simp_all add: clearCurrent_def clearInterval_def split: option.splits)

lemma startAutoRefresh_fields [simp]:
  "selectedDevice (startAutoRefresh clo st) = selectedDevice st"
  "selectedHierarchy (startAutoRefresh clo st) = selectedHierarchy st"
  "token (startAutoRefresh clo st) = token st"
  "timeRange (startAutoRefresh clo st) = timeRange st"
  "lastRefresh (startAutoRefresh clo st) = lastRefresh st"
  "mounted (startAutoRefresh clo st) = mounted st"
  "console (startAutoRefresh clo st) = console st"
  "chartData (startAutoRefresh clo st) = chartData st"
  "hierarchyChartData (startAutoRefresh clo st) = hierarchyChartData st"
  "isLoading (startAutoRefresh clo st) = isLoading st"
  "pending (startAutoRefresh clo st) = pending st"
  "calls (startAutoRefresh clo st) = calls st"
  "refreshIntervalRef (startAutoRefresh clo st) = Some (Timeout (nextInterval st))"
  "nextInterval (startAutoRefresh clo st) = Suc (nextInterval st)"
  "intervals (startAutoRefresh clo st) =
     intervals (clearCurrent st) @ [(Timeout (nextInterval st), clo)]"
  by (simp_all add: startAutoRefresh_def Let_def)

lemma deviceSettled_fields [simp]:
  "selectedDevice (deviceSettled i now out st) = selectedDevice st"
  "selectedHierarchy (deviceSettled i now out st) = selectedHierarchy st"
  "token (deviceSettled i now out st) = token st"
  "timeRange (deviceSettled i now out st) = timeRange st"
  "lastRefresh (deviceSettled i now out st) = lastRefresh st"
  "refreshIntervalRef (deviceSettled i now out st) = refreshIntervalRef st"
  "mounted (deviceSettled i now out st) = mounted st"
  "intervals (deviceSettled i now out st) = intervals st"
  "nextInterval (deviceSettled i now out st) = nextInterval st"
  "hierarchyChartData (deviceSettled i now out st) = hierarchyChartData st"
  "isLoading (deviceSettled i now out st) = False"
  "pending (deviceSettled i now out st) = pending st"
  "calls (deviceSettled i now out st) = calls st"
  by (simp_all add: deviceSettled_def Let_def split: outcome.splits option.splits bool.splits)

lemma hierarchySettled_fields [simp]:
  "selectedDevice (hierarchySettled out st) = selectedDevice st"
  "selectedHierarchy (hierarchySettled out st) = selectedHierarchy st"
  "token (hierarchySettled out st) = token st"
  "timeRange (hierarchySettled out st) = timeRange st"
  "lastRefresh (hierarchySettled out st) = lastRefresh st"
  "refreshIntervalRef (hierarchySettled out st) = refreshIntervalRef st"
  "mounted (hierarchySettled out st) = mounted st"
  "intervals (hierarchySettled out st) = intervals st"
  "nextInterval (hierarchySettled out st) = nextInterval st"
  "chartData (hierarchySettled out st) = chartData st"
  "isLoading (hierarchySettled out st) = False"
  "pending (hierarchySettled out st) = pending st"
  "calls (hierarchySettled out st) = calls st"
  by (simp_all add: hierarchySettled_def Let_def split: outcome.splits option.splits bool.splits)

lemma render_fields [simp]:
  "selectedDevice (render dev hier tok tr st) = dev"
  "selectedHierarchy (render dev hier tok tr st) = hier"
  "token (render dev hier tok tr st) = tok"
  "timeRange (render dev hier tok tr st) = tr"
  "lastRefresh (render dev hier tok tr st) = lastRefresh st"
  "mounted (render dev hier tok tr st) = mounted st"
  "console (render dev hier tok tr st) = console st"
  by (simp_all add: render_def Let_def)

lemma render_data:
  "chartData (render dev hier tok tr st) =
     (if \<not> fetchDepsSame dev hier tr tok st \<and> \<not> present dev \<and> present hier then None
      else chartData st)"
  "hierarchyChartData (render dev hier tok tr st) =
     (if \<not> fetchDepsSame dev hier tr tok st \<and> present dev \<and> \<not> present hier then None
      else hierarchyChartData st)"
  "pending (render dev hier tok tr st) =
     pending st @ (if \<not> fetchDepsSame dev hier tr tok st then wanted dev hier tok else [])"
  "calls (render dev hier tok tr st) =
     calls st @ (if \<not> fetchDepsSame dev hier tr tok st then wantedCalls dev hier tr tok else [])"
  "isLoading (render dev hier tok tr st) =
     (isLoading st \<or> \<not> fetchDepsSame dev hier tr tok st \<and> wanted dev hier tok \<noteq> [])"
  by (auto simp add: render_def Let_def)

lemma render_timer:
  "intervals (render dev hier tok tr st) =
     (if \<not> timerDepsSame dev hier tok st
      then (case refreshIntervalRef st of
              Some t \<Rightarrow> filter (\<lambda>(i, c). i \<noteq> t) (filter (\<lambda>(i, c). i \<noteq> t) (intervals st))
            | None \<Rightarrow> intervals st)
           @ [(Timeout (nextInterval st),
               \<lparr>c_selectedDevice = dev, c_selectedHierarchy = hier, c_token = tok,
                c_timeRange = tr\<rparr>)]
      else intervals st)"
  "refreshIntervalRef (render dev hier tok tr st) =
     (if \<not> timerDepsSame dev hier tok st
      then Some (Timeout (nextInterval st)) else refreshIntervalRef st)"
  "nextInterval (render dev hier tok tr st) =
     (if \<not> timerDepsSame dev hier tok st
      then Suc (nextInterval st) else nextInterval st)"
  by (simp_all add: render_def Let_def closureOf_def split: option.splits)

section \<open>Dependencies\<close>

lemma Object_is_refl [simp]: "Object_is ref a a"
  by (cases a) simp_all

lemma Object_is_present: "Object_is ref a b \<Longrightarrow> present a = present b"
  by (cases a; cases b) simp_all

lemma notMutated_refl [simp]: "notMutated ref a a"
  by (simp add: notMutated_def)

lemma notMutated_same: "notMutated ref a b \<Longrightarrow> Object_is ref a b \<Longrightarrow> a = b"
  by (simp add: notMutated_def)

lemma timerDepsSame_now [simp]:
  "timerDepsSame (selectedDevice st) (selectedHierarchy st) (token st) st"
  by (simp add: timerDepsSame_def)

lemma fetchDepsSame_timer: "fetchDepsSame dev hier tr tok st \<Longrightarrow> timerDepsSame dev hier tok st"
  by (simp add: fetchDepsSame_def timerDepsSame_def)

lemma fetchDepsSame_present:
  "fetchDepsSame dev hier tr tok st \<Longrightarrow>
   present dev = present (selectedDevice st) \<and> present hier = present (selectedHierarchy st)"
  by (auto simp add: fetchDepsSame_def dest: Object_is_present)

text \<open>With props that are not changed in place, the same object has the same fields.\<close>

lemma timerDepsSame_equal:
  "notMutated device_ref dev (selectedDevice st) \<Longrightarrow>
   notMutated hierarchy_ref hier (selectedHierarchy st) \<Longrightarrow>
   timerDepsSame dev hier tok st =
     ((dev, hier, tok) = (selectedDevice st, selectedHierarchy st, token st))"
  by (auto simp add: timerDepsSame_def dest: notMutated_same)

lemma fetchDepsSame_equal:
  "notMutated device_ref dev (selectedDevice st) \<Longrightarrow>
   notMutated hierarchy_ref hier (selectedHierarchy st) \<Longrightarrow>
   fetchDepsSame dev hier tr tok st =
     ((dev, hier, tr, tok) = (selectedDevice st, selectedHierarchy st, timeRange st, token st))"
  by (auto simp add: fetchDepsSame_def dest: notMutated_same)

section \<open>The loading flag\<close>

lemma wantedCalls_Nil [simp]: "(wantedCalls dev hier tr tok = []) = (wanted dev hier tok = [])"
  by (simp add: wantedCalls_def wanted_def)

lemma step_loading_inv: "loading_inv st \<Longrightarrow> step e st = Some st' \<Longrightarrow> loading_inv st'"
  by (cases e)
     (auto simp add: loading_inv_def render_data split: if_splits option.splits inflight.splits)

lemma run_loading_inv: "loading_inv st \<Longrightarrow> run es st = Some st' \<Longrightarrow> loading_inv st'"
  by (induction es arbitrary: st) (auto split: option.splits dest: step_loading_inv)

lemma mount_loading_inv: "loading_inv (mount dev hier tok now)"
  by (simp add: loading_inv_def mount_def Let_def initial_def)

section \<open>The timer\<close>

lemma timer_invI:
  "mounted st \<Longrightarrow> refreshIntervalRef st = Some t \<Longrightarrow> intervals st = [(t, c)] \<Longrightarrow>
   number t < nextInterval st \<Longrightarrow> closes_over c st \<Longrightarrow> timer_inv st"
  by (simp add: timer_inv_def)

lemma timer_invD:
  assumes "timer_inv st" "mounted st"
  obtains t c where "refreshIntervalRef st = Some t" "intervals st = [(t, c)]"
    "number t < nextInterval st" "closes_over c st"
proof -
  from assms obtain t where t: "refreshIntervalRef st = Some t" "map fst (intervals st) = [t]"
    "number t < nextInterval st" "list_all (\<lambda>(i, c). closes_over c st) (intervals st)"
    by (auto simp add: timer_inv_def split: option.splits)
  from t(2) obtain c where "intervals st = [(t, c)]"
    by (cases "intervals st") auto
  with t that show thesis by auto
qed

lemma render_timer_inv:
  assumes "timer_inv st" "mounted st"
    and "notMutated device_ref dev (selectedDevice st)"
    and "notMutated hierarchy_ref hier (selectedHierarchy st)"
  shows "timer_inv (render dev hier tok tr st)"
proof -
  from assms(1,2) obtain t c where h: "refreshIntervalRef st = Some t"
    "intervals st = [(t, c)]" "number t < nextInterval st" "closes_over c st"
    by (rule timer_invD)
  show ?thesis
  proof (cases "timerDepsSame dev hier tok st")
    case False
    then show ?thesis
      using assms(2) h
      by (intro timer_invI[where t = "Timeout (nextInterval st)"
            and c = "\<lparr>c_selectedDevice = dev, c_selectedHierarchy = hier, c_token = tok,
                      c_timeRange = tr\<rparr>"])
         (simp_all add: render_timer closes_over_def)
  next
    case True
    then have "dev = selectedDevice st" "hier = selectedHierarchy st" "tok = token st"
      using timerDepsSame_equal [OF assms(3,4), of tok] by simp_all
    then show ?thesis
      using True assms(2) h
      by (intro timer_invI[where t = t and c = c]) (simp_all add: render_timer closes_over_def)
  qed
qed

lemma step_timer_inv:
  assumes "timer_inv st" "step e st = Some st'"
  shows "timer_inv st'"
proof (cases e)
  case (Rerender dev hier tok)
  then show ?thesis using assms by (auto split: if_splits intro: render_timer_inv)
next
  case (SetTimeRange tr)
  then show ?thesis using assms by (auto split: if_splits intro: render_timer_inv)
next
  case (Tick t now)
  then show ?thesis using assms
    by (auto simp add: timer_inv_def closes_over_def split: option.splits)
next
  case (DeviceSettles k now out)
  then show ?thesis using assms
    by (auto simp add: timer_inv_def closes_over_def split: if_splits inflight.splits option.splits)
next
  case (HierarchySettles k out)
  then show ?thesis using assms
    by (auto simp add: timer_inv_def closes_over_def split: if_splits inflight.splits option.splits)
next
  case Unmount
  with assms have m: "mounted st" and s: "st' = (clearCurrent st)\<lparr>mounted := False\<rparr>"
    by (auto split: if_splits)
  from assms(1) m obtain t c where "refreshIntervalRef st = Some t" "intervals st = [(t, c)]"
    by (rule timer_invD)
  then show ?thesis using s by (simp add: timer_inv_def)
qed

lemma run_timer_inv: "timer_inv st \<Longrightarrow> run es st = Some st' \<Longrightarrow> timer_inv st'"
  by (induction es arbitrary: st) (auto split: option.splits dest: step_timer_inv)

lemma mount_timer_inv: "timer_inv (mount dev hier tok now)"
  by (rule timer_invI[where t = "Timeout 0"
        and c = "\<lparr>c_selectedDevice = dev, c_selectedHierarchy = hier, c_token = tok,
                  c_timeRange = ''day''\<rparr>"])
     (simp_all add: mount_def Let_def initial_def closureOf_def closes_over_def)


section \<open>The two snapshots\<close>

lemma set_dropAt: "set (dropAt k xs) \<subseteq> set xs"
  by (auto simp add: dropAt_def dest: in_set_takeD in_set_dropD)

lemma inFlight_cong:
  "pending st' = pending st \<Longrightarrow> deviceInFlight st' = deviceInFlight st"
  "pending st' = pending st \<Longrightarrow> hierarchyInFlight st' = hierarchyInFlight st"
  by (simp_all add: deviceInFlight_def hierarchyInFlight_def)

lemma inFlight_pending:
  "pending st' = pending st @ wanted dev hier tok \<Longrightarrow>
     deviceInFlight st' =
       (deviceInFlight st \<or> \<not> falsy_token tok \<and> present dev \<and> \<not> present hier)"
  "pending st' = pending st @ wanted dev hier tok \<Longrightarrow>
     hierarchyInFlight st' =
       (hierarchyInFlight st \<or> \<not> falsy_token tok \<and> \<not> present dev \<and> present hier)"
  by (auto simp add: deviceInFlight_def hierarchyInFlight_def wanted_def)

lemma inFlight_dropAt:
  "pending st' = dropAt k (pending st) \<Longrightarrow> deviceInFlight st' \<Longrightarrow> deviceInFlight st"
  "pending st' = dropAt k (pending st) \<Longrightarrow> hierarchyInFlight st' \<Longrightarrow> hierarchyInFlight st"
  using set_dropAt[of k "pending st"]
  by (auto simp add: deviceInFlight_def hierarchyInFlight_def)

lemma snapshot_inv_cong:
  assumes "pending st' = pending st" "chartData st' = chartData st"
    "hierarchyChartData st' = hierarchyChartData st"
    "present (selectedDevice st') = present (selectedDevice st)"
    "present (selectedHierarchy st') = present (selectedHierarchy st)"
  shows "snapshot_inv st' = snapshot_inv st"
  unfolding snapshot_inv_def inFlight_cong[OF assms(1)] assms(2-5) ..

lemma render_snapshot_inv:
  assumes "snapshot_inv st"
    and "present dev \<and> \<not> present hier \<longrightarrow> \<not> hierarchyInFlight st"
    and "\<not> present dev \<and> present hier \<longrightarrow> \<not> deviceInFlight st"
  shows "snapshot_inv (render dev hier tok tr st)"
proof (cases "fetchDepsSame dev hier tr tok st")
  case True
  then have "snapshot_inv (render dev hier tok tr st) = snapshot_inv st"
    by (intro snapshot_inv_cong) (simp_all add: render_data fetchDepsSame_present)
  then show ?thesis using assms(1) by simp
next
  case False
  then have p: "pending (render dev hier tok tr st) = pending st @ wanted dev hier tok"
    by (simp add: render_data)
  have c: "chartData (render dev hier tok tr st) =
      (if \<not> present dev \<and> present hier then None else chartData st)"
    "hierarchyChartData (render dev hier tok tr st) =
      (if present dev \<and> \<not> present hier then None else hierarchyChartData st)"
    using False by (simp_all add: render_data)
  have s: "selectedDevice (render dev hier tok tr st) = dev"
    "selectedHierarchy (render dev hier tok tr st) = hier"
    by simp_all
  show ?thesis
    using assms unfolding snapshot_inv_def inFlight_pending[OF p] c s
    by auto
qed

lemma tick_snapshot_inv:
  assumes "snapshot_inv st" "closes_over clo st"
  shows "snapshot_inv (intervalCallback clo now st)"
proof -
  have p: "pending (intervalCallback clo now st) =
      pending st @ wanted (selectedDevice st) (selectedHierarchy st) (token st)"
    using assms(2) by (simp add: closes_over_def)
  have c: "chartData (intervalCallback clo now st) = chartData st"
    "hierarchyChartData (intervalCallback clo now st) = hierarchyChartData st"
    "selectedDevice (intervalCallback clo now st) = selectedDevice st"
    "selectedHierarchy (intervalCallback clo now st) = selectedHierarchy st"
    by simp_all
  show ?thesis
    using assms(1) unfolding snapshot_inv_def inFlight_pending[OF p] c
    by auto
qed

lemma deviceSettled_snapshot_inv:
  assumes "snapshot_inv st" "k < length (pending st)" "pending st ! k = DeviceFetch i"
  shows "snapshot_inv (deviceSettled i now out (st\<lparr>pending := dropAt k (pending st)\<rparr>))"
proof -
  let ?st' = "deviceSettled i now out (st\<lparr>pending := dropAt k (pending st)\<rparr>)"
  have p: "pending ?st' = dropAt k (pending st)" by simp
  have c: "hierarchyChartData ?st' = hierarchyChartData st"
    "selectedDevice ?st' = selectedDevice st" "selectedHierarchy ?st' = selectedHierarchy st"
    by simp_all
  have "DeviceFetch i \<in> set (pending st)"
    using assms(2,3) by (metis nth_mem)
  then have d: "deviceInFlight st" by (auto simp add: deviceInFlight_def)
  have nh: "hierarchyInFlight ?st' \<longrightarrow> hierarchyInFlight st"
    using inFlight_dropAt(2)[OF p] by blast
  show ?thesis
    using assms(1) d nh unfolding snapshot_inv_def c
    by auto
qed

lemma hierarchySettled_snapshot_inv:
  assumes "snapshot_inv st" "k < length (pending st)" "pending st ! k = HierarchyFetch"
  shows "snapshot_inv (hierarchySettled out (st\<lparr>pending := dropAt k (pending st)\<rparr>))"
proof -
  let ?st' = "hierarchySettled out (st\<lparr>pending := dropAt k (pending st)\<rparr>)"
  have p: "pending ?st' = dropAt k (pending st)" by simp
  have c: "chartData ?st' = chartData st"
    "selectedDevice ?st' = selectedDevice st" "selectedHierarchy ?st' = selectedHierarchy st"
    by simp_all
  have "HierarchyFetch \<in> set (pending st)"
    using assms(2,3) by (metis nth_mem)
  then have d: "hierarchyInFlight st" by (simp add: hierarchyInFlight_def)
  have nh: "deviceInFlight ?st' \<longrightarrow> deviceInFlight st"
    using inFlight_dropAt(1)[OF p] by blast
  show ?thesis
    using assms(1) d nh unfolding snapshot_inv_def c
    by auto
qed

lemma step_snapshot_inv:
  assumes "snapshot_inv st" "timer_inv st" "calm e st" "step e st = Some st'"
  shows "snapshot_inv st'"
proof (cases e)
  case (Rerender dev hier tok)
  then show ?thesis using assms by (auto split: if_splits intro: render_snapshot_inv)
next
  case (SetTimeRange tr)
  then have "st' = render (selectedDevice st) (selectedHierarchy st) (token st) tr st"
    using assms(4) by (auto split: if_splits)
  moreover have "snapshot_inv (render (selectedDevice st) (selectedHierarchy st) (token st) tr st)"
    using assms(1) by (intro render_snapshot_inv) (auto simp add: snapshot_inv_def)
  ultimately show ?thesis by simp
next
  case (Tick t now)
  then obtain clo where c: "map_of (intervals st) t = Some clo" "st' = intervalCallback clo now st"
    using assms(4) by (auto split: option.splits)
  then have "(t, clo) \<in> set (intervals st)" by (auto dest: map_of_SomeD)
  moreover have "mounted st"
    using c(1) assms(2) by (cases "mounted st") (auto simp add: timer_inv_def)
  ultimately have "closes_over clo st"
    using assms(2) by (auto simp add: timer_inv_def list_all_iff split: option.splits)
  then show ?thesis using assms(1) c(2) by (simp add: tick_snapshot_inv)
next
  case (DeviceSettles k now out)
  then show ?thesis using assms
    by (auto split: if_splits inflight.splits intro: deviceSettled_snapshot_inv)
next
  case (HierarchySettles k out)
  then show ?thesis using assms
    by (auto split: if_splits inflight.splits intro: hierarchySettled_snapshot_inv)
next
  case Unmount
  then have s: "st' = (clearCurrent st)\<lparr>mounted := False\<rparr>"
    using assms(4) by (auto split: if_splits)
  have "snapshot_inv st' = snapshot_inv st"
    unfolding s by (intro snapshot_inv_cong) simp_all
  then show ?thesis using assms(1) by simp
qed

lemma calm_run_snapshot_inv:
  "snapshot_inv st \<Longrightarrow> timer_inv st \<Longrightarrow> calm_run es st \<Longrightarrow> run es st = Some st' \<Longrightarrow>
   snapshot_inv st'"
proof (induction es arbitrary: st)
  case Nil
  then show ?case by simp
next
  case (Cons e es)
  from Cons.prems(3) obtain st1 where s: "step e st = Some st1" "calm e st" "calm_run es st1"
    by (auto split: option.splits)
  have "snapshot_inv st1" using Cons.prems(1,2) s(2,1) by (rule step_snapshot_inv)
  moreover have "timer_inv st1" using Cons.prems(2) s(1) by (rule step_timer_inv)
  moreover have "run es st1 = Some st'" using Cons.prems(4) s(1) by simp
  ultimately show ?case using s(3) by (intro Cons.IH)
qed

lemma mount_snapshot_inv: "snapshot_inv (mount dev hier tok now :: 'v dashboard)"
proof -
  have p: "pending (mount dev hier tok now :: 'v dashboard) =
      pending (initial dev hier tok now :: 'v dashboard) @ wanted dev hier tok"
    by (simp add: mount_def Let_def)
  have i: "\<not> deviceInFlight (initial dev hier tok now :: 'v dashboard)"
    "\<not> hierarchyInFlight (initial dev hier tok now :: 'v dashboard)"
    by (simp_all add: deviceInFlight_def hierarchyInFlight_def initial_def)
  have c: "chartData (mount dev hier tok now :: 'v dashboard) = None"
    "hierarchyChartData (mount dev hier tok now :: 'v dashboard) = None"
    "selectedDevice (mount dev hier tok now :: 'v dashboard) = dev"
    "selectedHierarchy (mount dev hier tok now :: 'v dashboard) = hier"
    by (simp_all add: mount_def Let_def initial_def)
  show ?thesis
    unfolding snapshot_inv_def inFlight_pending[OF p] c using i by auto
qed

section \<open>After the unmount\<close>



section \<open>Events that leave the timer alone\<close>


text \<open>
  A render that can happen and brings another selection or token has other dependencies.
\<close>

lemma change_is_dep_change:
  assumes "step (Rerender dev hier tok) st \<noteq> None"
    and "(dev, hier, tok) \<noteq> (selectedDevice st, selectedHierarchy st, token st)"
  shows "\<not> timerDepsSame dev hier tok st" "\<not> fetchDepsSame dev hier tr tok st"
proof -
  from assms(1) have n: "notMutated device_ref dev (selectedDevice st)"
    "notMutated hierarchy_ref hier (selectedHierarchy st)"
    by (auto split: if_splits)
  show "\<not> timerDepsSame dev hier tok st"
    using assms(2) timerDepsSame_equal [OF n, of tok] by simp
  then show "\<not> fetchDepsSame dev hier tr tok st"
    using fetchDepsSame_timer by blast
qed

section \<open>The claims\<close>

subsection \<open>C1: both or neither selected\<close>

text \<open>
  C1, as amended. When both the device and the hierarchy are selected, or neither is, the
  selection-change reaction does nothing at all: it issues no fetch and leaves both
  snapshots as they were. (The claim said that it clears both.)
\<close>

theorem selection_both_or_neither_no_effect:
  "(present dev \<and> present hier) \<or> (\<not> present dev \<and> \<not> present hier) \<Longrightarrow>
   selectionEffect dev hier tr tok st = st"
  by (auto simp add: selectionEffect_def)

text \<open>C1, witness: nothing selected, and both selected, on the mounted sample.\<close>

theorem selection_both_or_neither_no_effect_witness:
  "selectionEffect Null Undefined ''day'' (Val ''tok'') deviceMounted = deviceMounted \<and>
   selectionEffect (Val sampleDevice) (Val sampleHierarchy) ''day'' (Val ''tok'') deviceMounted
     = deviceMounted"
  using selection_both_or_neither_no_effect
          [of Null Undefined "''day''" "Val ''tok''" deviceMounted]
        selection_both_or_neither_no_effect
          [of "Val sampleDevice" "Val sampleHierarchy" "''day''" "Val ''tok''" deviceMounted]
  by simp

text \<open>
  C1, counterexample. The sample device is selected and its fetch succeeds; then the
  selection is dropped (neither set). The reaction runs, and the device snapshot is still
  there.
\<close>

theorem deselecting_keeps_snapshot:
  "run [DeviceSettles 0 ''t'' (ok sampleData), Rerender Null Null (Val ''tok'')] deviceMounted
     \<noteq> None \<and>
   selectedDevice
     (the (run [DeviceSettles 0 ''t'' (ok sampleData), Rerender Null Null (Val ''tok'')]
             deviceMounted)) = Null \<and>
   selectedHierarchy
     (the (run [DeviceSettles 0 ''t'' (ok sampleData), Rerender Null Null (Val ''tok'')]
             deviceMounted)) = Null \<and>
   chartData
     (the (run [DeviceSettles 0 ''t'' (ok sampleData), Rerender Null Null (Val ''tok'')]
             deviceMounted)) \<noteq> None"
  by code_simp

subsection \<open>C2: at most one snapshot\<close>

text \<open>
  C2, as amended. When the selection becomes hierarchy-only the reaction sets the device
  snapshot to null at once, whatever the token and whatever becomes of the hierarchy
  fetch, and likewise the other way round. At most one snapshot is non-null in every
  state reached by a run in which the selection never becomes device-only while a
  hierarchy fetch is in flight, nor hierarchy-only while a device fetch is in flight.
  (The claim said: in every reachable state.)
\<close>

theorem one_snapshot_when_calm:
  assumes "calm_run es (mount dev0 hier0 tok0 now0)"
    and "run es (mount dev0 hier0 tok0 now0) = Some st"
  shows "(chartData st = None \<or> hierarchyChartData st = None) \<and>
    (\<not> present a \<longrightarrow> chartData (selectionEffect a (Val h) tr tok st) = None) \<and>
    (\<not> present b \<longrightarrow> hierarchyChartData (selectionEffect (Val d) b tr tok st) = None) \<and>
    (present (selectedDevice st) \<and> \<not> present a \<longrightarrow>
       chartData (render a (Val h) tok tr st) = None) \<and>
    (present (selectedHierarchy st) \<and> \<not> present b \<longrightarrow>
       hierarchyChartData (render (Val d) b tok tr st) = None)"
proof -
  have "snapshot_inv st"
    using mount_snapshot_inv mount_timer_inv assms by (rule calm_run_snapshot_inv)
  then have "chartData st = None \<or> hierarchyChartData st = None"
    by (simp add: snapshot_inv_def)
  moreover have "\<not> fetchDepsSame a (Val h) tr tok st"
    if "present (selectedDevice st)" "\<not> present a"
    using that fetchDepsSame_present by blast
  moreover have "\<not> fetchDepsSame (Val d) b tr tok st"
    if "present (selectedHierarchy st)" "\<not> present b"
    using that fetchDepsSame_present by blast
  ultimately show ?thesis by (auto simp add: render_data)
qed

text \<open>
  C2, witness: the device fetch succeeds, the selection switches to the sample hierarchy
  with no token (so no hierarchy fetch is even made), and the device snapshot is gone.
\<close>

theorem one_snapshot_when_calm_witness:
  "calm_run [DeviceSettles 0 ''t'' (ok sampleData)] deviceMounted \<and>
   chartData (the (run [DeviceSettles 0 ''t'' (ok sampleData)] deviceMounted)) \<noteq> None \<and>
   hierarchyChartData (the (run [DeviceSettles 0 ''t'' (ok sampleData)] deviceMounted)) = None \<and>
   chartData (render Null (Val sampleHierarchy) Null ''day''
                (the (run [DeviceSettles 0 ''t'' (ok sampleData)] deviceMounted))) = None"
proof -
  have c: "calm_run [DeviceSettles 0 ''t'' (ok sampleData)]
             (mount (Val sampleDevice) Null (Val ''tok'') 0 :: nat dashboard)"
    by code_simp
  have r: "run [DeviceSettles 0 ''t'' (ok sampleData)]
             (mount (Val sampleDevice) Null (Val ''tok'') 0 :: nat dashboard) =
           Some (the (run [DeviceSettles 0 ''t'' (ok sampleData)] deviceMounted))"
    by code_simp
  have s: "present (selectedDevice (the (run [DeviceSettles 0 ''t'' (ok sampleData)] deviceMounted)))"
    "\<not> present (Null :: Device nullable)"
    "chartData (the (run [DeviceSettles 0 ''t'' (ok sampleData)] deviceMounted)) \<noteq> None"
    by code_simp+
  have c': "calm_run [DeviceSettles 0 ''t'' (ok sampleData)] deviceMounted"
    by code_simp
  show ?thesis
    using one_snapshot_when_calm
            [OF c r, where a = Null and h = sampleHierarchy and tr = "''day''" and tok = Null
               and b = Null and d = sampleDevice]
          s c'
    by blast
qed

text \<open>
  C2, counterexample. The sample device is selected and its fetch is in flight when the
  selection switches to the sample hierarchy; the hierarchy fetch succeeds, then the
  device fetch does. Both snapshots are non-null.
\<close>

theorem late_fetch_fills_both_snapshots:
  "run [Rerender Null (Val sampleHierarchy) (Val ''tok''), HierarchySettles 1 (ok 5),
        DeviceSettles 0 ''t'' (ok sampleData)] deviceMounted \<noteq> None \<and>
   chartData
     (the (run [Rerender Null (Val sampleHierarchy) (Val ''tok''), HierarchySettles 1 (ok 5),
                DeviceSettles 0 ''t'' (ok sampleData)] deviceMounted)) \<noteq> None \<and>
   hierarchyChartData
     (the (run [Rerender Null (Val sampleHierarchy) (Val ''tok''), HierarchySettles 1 (ok 5),
                DeviceSettles 0 ''t'' (ok sampleData)] deviceMounted)) \<noteq> None"
  by code_simp


subsection \<open>C3: one fetch per change\<close>

text \<open>
  C3, as amended. A render that brings another selection or token, or another time
  range, has not the dependencies of the previous render. In every render whose
  dependencies are not those of the previous one: with a token present, exactly one call
  is made when exactly one of device and hierarchy is selected, to the device endpoint
  for a device and to the hierarchy endpoint for a hierarchy, with the time range of
  that render, which is then the selected one, and none is made with both or neither
  selected; without a token, no call is made. (The claim did not ask for the token.)
\<close>

theorem one_fetch_per_change:
  "(step (Rerender dev hier tok) st \<noteq> None \<and>
    (dev, hier, tok) \<noteq> (selectedDevice st, selectedHierarchy st, token st) \<longrightarrow>
      \<not> fetchDepsSame dev hier (timeRange st) tok st) \<and>
   (tr \<noteq> timeRange st \<longrightarrow> \<not> fetchDepsSame dev hier tr tok st) \<and>
   (\<not> fetchDepsSame dev hier tr tok st \<longrightarrow>
      timeRange (render dev hier tok tr st) = tr \<and>
      (\<not> falsy_token tok \<longrightarrow>
         (\<forall>d. dev = Val d \<and> \<not> present hier \<longrightarrow>
            calls (render dev hier tok tr st) =
              calls st @
              [GetDeviceChartDataEnhanced (deviceIdNumber (deviceIdOf d)) tr (the_val tok)]) \<and>
         (\<forall>h. \<not> present dev \<and> hier = Val h \<longrightarrow>
            calls (render dev hier tok tr st) =
              calls st @
              [GetHierarchyChartDataEnhanced (Number (hierarchy_id h)) tr (the_val tok)]) \<and>
         ((present dev \<longleftrightarrow> present hier) \<longrightarrow> calls (render dev hier tok tr st) = calls st)) \<and>
      (falsy_token tok \<longrightarrow> calls (render dev hier tok tr st) = calls st))"
proof -
  have a: "step (Rerender dev hier tok) st \<noteq> None \<and>
      (dev, hier, tok) \<noteq> (selectedDevice st, selectedHierarchy st, token st) \<longrightarrow>
      \<not> fetchDepsSame dev hier (timeRange st) tok st"
    using change_is_dep_change(2) by blast
  have b: "tr \<noteq> timeRange st \<longrightarrow> \<not> fetchDepsSame dev hier tr tok st"
    by (simp add: fetchDepsSame_def)
  have c: "\<not> fetchDepsSame dev hier tr tok st \<longrightarrow>
      timeRange (render dev hier tok tr st) = tr \<and>
      (\<not> falsy_token tok \<longrightarrow>
         (\<forall>d. dev = Val d \<and> \<not> present hier \<longrightarrow>
            calls (render dev hier tok tr st) =
              calls st @
              [GetDeviceChartDataEnhanced (deviceIdNumber (deviceIdOf d)) tr (the_val tok)]) \<and>
         (\<forall>h. \<not> present dev \<and> hier = Val h \<longrightarrow>
            calls (render dev hier tok tr st) =
              calls st @
              [GetHierarchyChartDataEnhanced (Number (hierarchy_id h)) tr (the_val tok)]) \<and>
         ((present dev \<longleftrightarrow> present hier) \<longrightarrow> calls (render dev hier tok tr st) = calls st)) \<and>
      (falsy_token tok \<longrightarrow> calls (render dev hier tok tr st) = calls st)"
    by (auto simp add: render_data wantedCalls_def)
  show ?thesis using a b c by blast
qed

text \<open>
  C3, witness: on the mounted sample the time range changes to \<open>week\<close>; the selection
  changes to the sample hierarchy; and the token is lost.
\<close>

theorem one_fetch_per_change_witness:
  "calls (render (Val sampleDevice) Null (Val ''tok'') ''week'' deviceMounted) =
     calls deviceMounted @ [GetDeviceChartDataEnhanced (ParseInt ''42'') ''week'' ''tok''] \<and>
   calls (render Null (Val sampleHierarchy) (Val ''tok'') ''day'' deviceMounted) =
     calls deviceMounted @ [GetHierarchyChartDataEnhanced (Lit 3) ''day'' ''tok''] \<and>
   calls (render (Val sampleDevice) Null Null ''day'' deviceMounted) = calls deviceMounted"
proof -
  have w: "''week'' \<noteq> timeRange deviceMounted" by code_simp
  have p: "step (Rerender Null (Val sampleHierarchy) (Val ''tok'')) deviceMounted \<noteq> None"
    "(Null, Val sampleHierarchy, Val ''tok'') \<noteq>
       (selectedDevice deviceMounted, selectedHierarchy deviceMounted, token deviceMounted)"
    "step (Rerender (Val sampleDevice) Null Null) deviceMounted \<noteq> None"
    "(Val sampleDevice, Null, Null) \<noteq>
       (selectedDevice deviceMounted, selectedHierarchy deviceMounted, token deviceMounted)"
    "timeRange deviceMounted = ''day''"
    by code_simp+
  have t: "\<not> falsy_token (Val ''tok'')" "falsy_token Null" "the_val (Val ''tok'') = ''tok''"
    by simp_all
  have i: "deviceIdNumber (deviceIdOf sampleDevice) = ParseInt ''42''"
    "Number (hierarchy_id sampleHierarchy) = Lit 3"
    by code_simp+
  have a: "calls (render (Val sampleDevice) Null (Val ''tok'') ''week'' deviceMounted) =
     calls deviceMounted @ [GetDeviceChartDataEnhanced (ParseInt ''42'') ''week'' ''tok'']"
    using one_fetch_per_change
            [of "Val sampleDevice" Null "Val ''tok''" deviceMounted "''week''"] w t i
    by simp
  have b: "calls (render Null (Val sampleHierarchy) (Val ''tok'') ''day'' deviceMounted) =
     calls deviceMounted @ [GetHierarchyChartDataEnhanced (Lit 3) ''day'' ''tok'']"
    using one_fetch_per_change
            [of Null "Val sampleHierarchy" "Val ''tok''" deviceMounted "''day''"] p t i
    by simp
  have c: "calls (render (Val sampleDevice) Null Null ''day'' deviceMounted) = calls deviceMounted"
    using one_fetch_per_change
            [of "Val sampleDevice" Null Null deviceMounted "''day''"] p t
    by simp
  show ?thesis using a b c by blast
qed

text \<open>
  C3, counterexample. Nothing is selected and there is no token; then the sample device is
  selected. The selection has changed and exactly one of the two is set, and no call is
  made.
\<close>

theorem no_token_no_fetch_on_change:
  "step (Rerender (Val sampleDevice) Null Null) (mount Null Null Null 0 :: nat dashboard) \<noteq> None \<and>
   selectedDevice
     (the (step (Rerender (Val sampleDevice) Null Null) (mount Null Null Null 0 :: nat dashboard)))
     = Val sampleDevice \<and>
   calls
     (the (step (Rerender (Val sampleDevice) Null Null) (mount Null Null Null 0 :: nat dashboard)))
     = []"
  by code_simp

subsection \<open>C4: the loading flag\<close>

text \<open>
  C4. The loading flag is false in the initial state; a loader that gets past its token
  guard sets it as it makes its call; the continuation of either loader clears it, however
  the fetch settled; and in every state the component reaches the flag is up only if a
  fetch is in flight, and is down as long as no call has been made.
\<close>

theorem loading_flag_brackets_fetch:
  "\<not> isLoading (initial dev hier tok now :: 'v dashboard) \<and>
   (\<not> falsy_token tok' \<longrightarrow>
      isLoading (loadDeviceChartData tok' tr deviceId st) \<and>
      isLoading (loadHierarchyChartData tok' tr hierarchyId st)) \<and>
   \<not> isLoading (deviceSettled deviceId now' out st) \<and>
   \<not> isLoading (hierarchySettled out' st) \<and>
   (run es (mount dev hier tok now) = Some (st' :: 'v dashboard) \<longrightarrow>
      (isLoading st' \<longrightarrow> pending st' \<noteq> []) \<and> (calls st' = [] \<longrightarrow> \<not> isLoading st'))"
proof -
  have "run es (mount dev hier tok now) = Some st' \<Longrightarrow> loading_inv st'"
    using mount_loading_inv by (rule run_loading_inv)
  then show ?thesis by (auto simp add: loading_inv_def initial_def)
qed

text \<open>
  C4, witness: the sample is mounted (its fetch is in flight and the flag is up), then the
  fetch is rejected (nothing is in flight and the flag is down).
\<close>

theorem loading_flag_brackets_fetch_witness:
  "isLoading deviceMounted \<and> pending deviceMounted \<noteq> [] \<and>
   isLoading (loadDeviceChartData (Val ''tok'') ''day'' (IdNum 7) deviceMounted) \<and>
   \<not> isLoading (the (run [DeviceSettles 0 ''t'' (Rejected ''offline'')] deviceMounted)) \<and>
   pending (the (run [DeviceSettles 0 ''t'' (Rejected ''offline'')] deviceMounted)) = []"
proof -
  have r0: "run [] (mount (Val sampleDevice) Null (Val ''tok'') 0) = Some deviceMounted"
    by (simp add: deviceMounted_def)
  have r1: "run [DeviceSettles 0 ''t'' (Rejected ''offline'')]
              (mount (Val sampleDevice) Null (Val ''tok'') 0 :: nat dashboard) =
            Some (the (run [DeviceSettles 0 ''t'' (Rejected ''offline'')] deviceMounted))"
    by code_simp
  have t: "\<not> falsy_token (Val ''tok'')" by simp
  have f: "isLoading deviceMounted"
    "pending (the (run [DeviceSettles 0 ''t'' (Rejected ''offline'')] deviceMounted)) = []"
    by code_simp+
  show ?thesis
    using loading_flag_brackets_fetch
            [of "Val sampleDevice" Null "Val ''tok''" 0 "Val ''tok''" "''day''" "IdNum 7"
                deviceMounted _ _ _ _ "[]" deviceMounted]
          loading_flag_brackets_fetch
            [of "Val sampleDevice" Null "Val ''tok''" 0 "Val ''tok''" "''day''" "IdNum 7"
                deviceMounted _ _ _ _ "[DeviceSettles 0 ''t'' (Rejected ''offline'')]"
                "the (run [DeviceSettles 0 ''t'' (Rejected ''offline'')] deviceMounted)"]
          r0 r1 t f
    by blast
qed

subsection \<open>C5: a rejected fetch\<close>

text \<open>
  C5. When the promise of a device or hierarchy fetch rejects, the continuation writes one
  line with \<open>console.error\<close> and clears the loading flag, and changes nothing else: both
  snapshots stay as they were, and the component has no state in which an error could be
  shown.
\<close>

theorem rejected_fetch_swallowed:
  "deviceSettled deviceId now (Rejected e) st =
     st\<lparr>console := console st @ [(''Failed to load device chart data:'', e)],
        isLoading := False\<rparr> \<and>
   hierarchySettled (Rejected e) st =
     st\<lparr>console := console st @ [(''Failed to load hierarchy chart data:'', e)],
        isLoading := False\<rparr> \<and>
   chartData (deviceSettled deviceId now (Rejected e) st) = chartData st \<and>
   hierarchyChartData (deviceSettled deviceId now (Rejected e) st) = hierarchyChartData st \<and>
   chartData (hierarchySettled (Rejected e) st) = chartData st \<and>
   hierarchyChartData (hierarchySettled (Rejected e) st) = hierarchyChartData st"
  by (simp add: deviceSettled_def hierarchySettled_def)

text \<open>C5, witness: the fetch of the mounted sample is rejected.\<close>

theorem rejected_fetch_swallowed_witness:
  "deviceSettled (IdStr ''42'') ''t'' (Rejected ''offline'') deviceMounted =
     deviceMounted\<lparr>console := [(''Failed to load device chart data:'', ''offline'')],
                   isLoading := False\<rparr>"
proof -
  have c: "console deviceMounted = []" by code_simp
  show ?thesis
    using rejected_fetch_swallowed [of "IdStr ''42''" "''t''" "''offline''" deviceMounted] c
    by simp
qed

subsection \<open>C6: the timer fires\<close>

text \<open>
  C6, as amended. In every state the component reaches, a firing of a live timer happens
  to a mounted component, stamps \<open>lastRefresh\<close>, and leaves the selection and the time
  range alone. With a token present it makes exactly one call when exactly one of device
  and hierarchy is selected, to the endpoint of the current selection with the current
  token; with both or neither selected, or without a token, it makes none. (The claim did
  not ask for the token.)
\<close>

theorem timer_refetches_selection:
  assumes "run es (mount dev0 hier0 tok0 now0) = Some st"
    and "step (Tick t now) st = Some st'"
  shows "mounted st \<and> lastRefresh st' = now \<and>
    selectedDevice st' = selectedDevice st \<and> selectedHierarchy st' = selectedHierarchy st \<and>
    timeRange st' = timeRange st \<and>
    (\<forall>d. selectedDevice st = Val d \<and> \<not> present (selectedHierarchy st) \<and>
         \<not> falsy_token (token st) \<longrightarrow>
       (\<exists>tr. calls st' =
          calls st @
          [GetDeviceChartDataEnhanced (deviceIdNumber (deviceIdOf d)) tr (the_val (token st))])) \<and>
    (\<forall>h. \<not> present (selectedDevice st) \<and> selectedHierarchy st = Val h \<and>
         \<not> falsy_token (token st) \<longrightarrow>
       (\<exists>tr. calls st' =
          calls st @
          [GetHierarchyChartDataEnhanced (Number (hierarchy_id h)) tr (the_val (token st))])) \<and>
    ((present (selectedDevice st) \<longleftrightarrow> present (selectedHierarchy st)) \<or>
       falsy_token (token st) \<longrightarrow>
       calls st' = calls st)"
proof -
  have ti: "timer_inv st" using mount_timer_inv assms(1) by (rule run_timer_inv)
  from assms(2) obtain clo where c: "map_of (intervals st) t = Some clo"
    "st' = intervalCallback clo now st"
    by (auto split: option.splits)
  then have m: "(t, clo) \<in> set (intervals st)" by (auto dest: map_of_SomeD)
  have mo: "mounted st"
    using c(1) ti by (cases "mounted st") (auto simp add: timer_inv_def)
  have co: "closes_over clo st"
    using ti m mo by (auto simp add: timer_inv_def list_all_iff split: option.splits)
  have calls: "calls st' = calls st @
      wantedCalls (selectedDevice st) (selectedHierarchy st) (c_timeRange clo) (token st)"
    using co c(2) by (simp add: closes_over_def)
  show ?thesis
    unfolding calls using mo c(2) by (auto simp add: wantedCalls_def)
qed

text \<open>C6, witness: the timer of the mounted sample fires at time 5000.\<close>

theorem timer_refetches_selection_witness:
  "step (Tick (Timeout 0) 5000) deviceMounted \<noteq> None \<and>
   lastRefresh (the (step (Tick (Timeout 0) 5000) deviceMounted)) = 5000 \<and>
   timeRange (the (step (Tick (Timeout 0) 5000) deviceMounted)) = timeRange deviceMounted \<and>
   (\<exists>tr. calls (the (step (Tick (Timeout 0) 5000) deviceMounted)) =
      calls deviceMounted @ [GetDeviceChartDataEnhanced (ParseInt ''42'') tr ''tok''])"
proof -
  have r: "run [] (mount (Val sampleDevice) Null (Val ''tok'') 0) = Some deviceMounted"
    by (simp add: deviceMounted_def)
  have s: "step (Tick (Timeout 0) 5000) deviceMounted =
      Some (the (step (Tick (Timeout 0) 5000) deviceMounted))"
    by code_simp
  have f: "selectedDevice deviceMounted = Val sampleDevice"
    "\<not> present (selectedHierarchy deviceMounted)" "\<not> falsy_token (token deviceMounted)"
    "the_val (token deviceMounted) = ''tok''"
    "deviceIdNumber (deviceIdOf sampleDevice) = ParseInt ''42''"
    by code_simp+
  show ?thesis
    using timer_refetches_selection [OF r s] s f by auto
qed

text \<open>
  C6, counterexample. The sample device is selected and there is no token. The timer
  fires: exactly one of the two is selected, and no call is made.
\<close>

theorem no_token_no_fetch_on_tick:
  "step (Tick (Timeout 0) 5000) (mount (Val sampleDevice) Null Null 0 :: nat dashboard) \<noteq> None \<and>
   calls (the (step (Tick (Timeout 0) 5000)
                 (mount (Val sampleDevice) Null Null 0 :: nat dashboard))) = []"
  by code_simp

subsection \<open>C7: the life of the timer\<close>



subsection \<open>C8: the device fetch\<close>

lemma copyPoint_same: "copyPoint p = p"
  by (simp add: copyPoint_def)

text \<open>
  C8, as amended. A device loader that gets past its token guard calls the device endpoint
  with a number: the id itself, or \<open>parseInt\<close> of it when it is a string; called from the
  selection-change reaction, with the time range then selected. On success the snapshot
  takes the measurement points, the latest data, the time range, the point count, the
  serial number, the name, the logo, the metadata and the well name from the response
  as they are, under new names; its id is the response's device id as a string, or the
  requested id when that is missing or empty; its creation date is the response's, or the
  current time; its company is the response's, or \<open>Unknown\<close>. (The claim said: renames
  only.)
\<close>

theorem device_fetch_call_and_snapshot:
  "(\<not> falsy_token tok \<longrightarrow>
      calls (loadDeviceChartData tok tr deviceId st) =
        calls st @
        [GetDeviceChartDataEnhanced
           (case deviceId of IdNum n \<Rightarrow> Lit n | IdStr s \<Rightarrow> ParseInt s) tr (the_val tok)] \<and>
      (\<not> fetchDepsSame (Val dv) a tr tok st \<and> \<not> present a \<longrightarrow>
       calls (render (Val dv) a tok tr st) =
         calls st @
         [GetDeviceChartDataEnhanced (deviceIdNumber (deviceIdOf dv))
            (timeRange (render (Val dv) a tok tr st)) (the_val tok)])) \<and>
   chartData (deviceSettled deviceId now (Resolved \<lparr>success = True, data = Some dat\<rparr>) st) =
     Some (transformedData deviceId now dat) \<and>
   d_chartData (transformedData deviceId now dat) = r_chartData dat \<and>
   d_latestData (transformedData deviceId now dat) = r_latestData dat \<and>
   d_timeRange (transformedData deviceId now dat) = r_timeRange dat \<and>
   d_totalDataPoints (transformedData deviceId now dat) = r_totalDataPoints dat \<and>
   d_serial_number (d_device (transformedData deviceId now dat)) = r_deviceSerial (r_device dat) \<and>
   d_type (d_device (transformedData deviceId now dat)) = r_deviceName (r_device dat) \<and>
   d_logo (d_device (transformedData deviceId now dat)) = r_deviceLogo (r_device dat) \<and>
   d_metadata (d_device (transformedData deviceId now dat)) = r_metadata (r_device dat) \<and>
   d_location (d_device (transformedData deviceId now dat)) = r_wellName (r_device dat) \<and>
   d_id (d_device (transformedData deviceId now dat)) =
     (case r_deviceId (r_device dat) of
        Some i \<Rightarrow> if toString i = [] then toString deviceId else toString i
      | None \<Rightarrow> toString deviceId) \<and>
   d_created_at (d_device (transformedData deviceId now dat)) =
     (case r_createdAt (r_device dat) of
        Some s \<Rightarrow> if s = [] then now else s
      | None \<Rightarrow> now) \<and>
   d_company (d_device (transformedData deviceId now dat)) =
     (case r_companyName (r_device dat) of
        Some s \<Rightarrow> if s = [] then ''Unknown'' else s
      | None \<Rightarrow> ''Unknown'')"
proof -
  have "map copyPoint (r_chartData dat) = r_chartData dat"
    by (rule map_idI) (rule copyPoint_same)
  then show ?thesis
    by (auto simp add: transformedData_def deviceSettled_def or_string_def deviceIdNumber_def
          render_data wantedCalls_def
        split: option.splits jsid.splits)
qed

text \<open>
  C8, witness: the sample device (id the string \<open>42\<close>) is loaded with a token, and the
  full sample response arrives.
\<close>

theorem device_fetch_call_and_snapshot_witness:
  "calls (loadDeviceChartData (Val ''tok'') ''day'' (IdStr ''42'') deviceMounted) =
     calls deviceMounted @ [GetDeviceChartDataEnhanced (ParseInt ''42'') ''day'' ''tok''] \<and>
   d_chartData (transformedData (IdStr ''42'') ''t'' sampleData) = [samplePoint] \<and>
   d_id (d_device (transformedData (IdStr ''42'') ''t'' sampleData)) = ''42'' \<and>
   d_created_at (d_device (transformedData (IdStr ''42'') ''t'' sampleData)) =
     ''2024-01-01T00:00:00.000Z'' \<and>
   d_company (d_device (transformedData (IdStr ''42'') ''t'' sampleData)) = ''Acme''"
proof -
  have t: "\<not> falsy_token (Val ''tok'')" "the_val (Val ''tok'') = ''tok''" by simp_all
  have f: "r_chartData sampleData = [samplePoint]"
    "r_deviceId (r_device sampleData) = Some (IdNum 42)"
    "toString (IdNum 42) = ''42''"
    "r_createdAt (r_device sampleData) = Some ''2024-01-01T00:00:00.000Z''"
    "r_companyName (r_device sampleData) = Some ''Acme''"
    by code_simp+
  show ?thesis
    using device_fetch_call_and_snapshot
            [of "Val ''tok''" "''day''" "IdStr ''42''" deviceMounted sampleDevice Null "''t''"
                sampleData]
          t f
    by simp
qed

text \<open>
  C8, counterexample. The response names no company and no creation date. The snapshot's
  company is \<open>Unknown\<close>, which the response does not hold, and its creation date is the
  clock's: the same response gives two different snapshots at two different times.
\<close>

theorem snapshot_is_not_renames_only:
  "r_companyName (r_device bareData) = None \<and>
   d_company (d_device (transformedData (IdNum 7) ''2024-01-01'' bareData)) = ''Unknown'' \<and>
   transformedData (IdNum 7) ''2024-01-01'' bareData \<noteq>
     transformedData (IdNum 7) ''2024-01-02'' bareData"
  by code_simp

text \<open>
  A remark on the time range of a timer-driven fetch. The time range is not among the
  dependencies of the timer effect, so the callback keeps the loaders of the render that
  started the timer: after the time range is set to \<open>week\<close>, the firing of the timer still
  asks for \<open>day\<close>.
\<close>

lemma timer_keeps_its_time_range:
  "timeRange (the (run [SetTimeRange ''week'', Tick (Timeout 0) 5000] deviceMounted)) = ''week'' \<and>
   calls (the (run [SetTimeRange ''week'', Tick (Timeout 0) 5000] deviceMounted)) =
     [GetDeviceChartDataEnhanced (ParseInt ''42'') ''day'' ''tok'',
      GetDeviceChartDataEnhanced (ParseInt ''42'') ''week'' ''tok'',
      GetDeviceChartDataEnhanced (ParseInt ''42'') ''day'' ''tok'']"
  by code_simp

subsection \<open>C9: no token\<close>

text \<open>
  C9. Called with the token absent (or empty), either loader returns at once: the state is
  the same afterwards, so no call was made, the loading flag was not set and no snapshot
  changed.
\<close>

theorem no_token_loader_returns:
  "falsy_token tok \<Longrightarrow>
   loadDeviceChartData tok tr deviceId st = st \<and>
   loadHierarchyChartData tok tr hierarchyId st = st"
  by (simp add: loadDeviceChartData_def loadHierarchyChartData_def)

text \<open>C9, witness: both loaders without a token, on the mounted sample.\<close>

theorem no_token_loader_returns_witness:
  "falsy_token Null \<and> falsy_token Undefined \<and>
   loadDeviceChartData Null ''day'' (IdNum 7) deviceMounted = deviceMounted \<and>
   loadHierarchyChartData Undefined ''day'' (IdNum 3) deviceMounted = deviceMounted"
proof -
  have t: "falsy_token Null" and u: "falsy_token Undefined" by simp_all
  show ?thesis
    using no_token_loader_returns [OF t, of "''day''" "IdNum 7" deviceMounted "IdNum 3"]
          no_token_loader_returns [OF u, of "''day''" "IdNum 7" deviceMounted "IdNum 3"] t u
    by simp
qed

subsection \<open>C10: a response that is not a success\<close>

text \<open>
  C10. When the promise resolves with \<open>success\<close> false or without \<open>data\<close>, the continuation
  of either loader only clears the loading flag: the snapshots stay and nothing is written
  to the console. A rejected promise differs in that it does write to the console.
\<close>

theorem unsuccessful_response_ignored:
  "\<not> success r \<or> data r = None \<Longrightarrow> \<not> success r' \<or> data r' = None \<Longrightarrow>
   deviceSettled deviceId now (Resolved r) st = st\<lparr>isLoading := False\<rparr> \<and>
   hierarchySettled (Resolved r') st = st\<lparr>isLoading := False\<rparr> \<and>
   console (deviceSettled deviceId now (Rejected e) st) \<noteq> console st \<and>
   console (hierarchySettled (Rejected e) st) \<noteq> console st"
  by (auto simp add: deviceSettled_def hierarchySettled_def split: option.splits bool.splits)

text \<open>
  C10, witness: a device response with \<open>success\<close> false though it has data, and a
  hierarchy response with \<open>success\<close> true and no data.
\<close>

theorem unsuccessful_response_ignored_witness:
  "deviceSettled (IdStr ''42'') ''t'' (Resolved \<lparr>success = False, data = Some sampleData\<rparr>)
     deviceMounted = deviceMounted\<lparr>isLoading := False\<rparr> \<and>
   hierarchySettled (Resolved \<lparr>success = True, data = None\<rparr>) deviceMounted =
     deviceMounted\<lparr>isLoading := False\<rparr>"
  using unsuccessful_response_ignored
          [of "\<lparr>success = False, data = Some sampleData\<rparr>" "\<lparr>success = True, data = None\<rparr>"
              "IdStr ''42''" "''t''" deviceMounted]
  by simp

end
